theory Spec2Isabelle
  imports Complex_Main
begin

section \<open>Data model of the store package\<close>

text \<open>
  The store service (package \<open>store\<close>, file \<open>store.go\<close>) is embedded shallowly:
  every handler becomes a function from the received message and the database state to
  the list of effects it performs, in the order the source performs them, and (for the
  writing handlers) the new database state.

  A Go result pair \<open>(v, err)\<close> is a pair \<open>(v, e)\<close> with \<open>e = None\<close> for \<open>nil\<close>. The
  source reads \<open>v\<close> after a logged error in several places, so both components are
  kept.
\<close>

text \<open>
  A Go \<open>error\<close> value. The store compares an error with the sentinel
  \<open>data.ErrDocumentNotFound\<close> by identity (\<open>err != data.ErrDocumentNotFound\<close>), so the
  sentinel is a value of its own, different from every error that merely has the same
  message; any other error is given by its message.
\<close>

datatype go_error = ErrDocumentNotFound | GoError string

text \<open>
  Modelled from the spec: the declaration of \<open>data.ErrDocumentNotFound\<close>, and with it
  the sentinel's message, is missing; section 7 names it as the error for a node that
  is not found. \<open>ErrorText\<close> is the method \<open>Error()\<close>.
\<close>

fun ErrorText :: "go_error \<Rightarrow> string" where
  "ErrorText ErrDocumentNotFound = ''document not found''"
| "ErrorText (GoError message) = message"

text \<open>
  Modelled from the spec: the declaration of \<open>data.Point\<close> is missing; section 3 of
  the specification lists its fields. \<open>Time\<close> is a timestamp (nanoseconds, 0 for the
  zero time). \<open>Value\<close> is an IEEE double in the source and a real number here; the
  store only copies it and writes the constant 0.
\<close>

record Point =
  pTime :: int
  pType :: string
  pKey :: string
  pValue :: real
  pText :: string
  pTombstone :: int

text \<open>\<open>data.Node\<close>, \<open>data.NodeEdge\<close> (a node seen through one parent edge) and
  \<open>data.Edge\<close>, with the fields \<open>store.go\<close> reads and writes.\<close>

record Node =
  nID :: string
  nType :: string
  nPoints :: "Point list"

record NodeEdge =
  neID :: string
  neType :: string
  neParent :: string
  nePoints :: "Point list"
  neEdgePoints :: "Point list"

record Edge =
  eID :: string
  eUp :: string
  eDown :: string
  ePoints :: "Point list"

text \<open>\<open>data.Notification\<close>, \<open>data.Message\<close>, \<open>data.User\<close> and \<open>data.MsgService\<close>,
  with the fields \<open>store.go\<close> reads and writes.\<close>

record Notification =
  ntID :: string
  ntParent :: string
  ntSubject :: string
  ntMessage :: string

record Message =
  mID :: string
  mUserID :: string
  mParentID :: string
  mNotificationID :: string
  mEmail :: string
  mPhone :: string
  mSubject :: string
  mMessage :: string

record User =
  uID :: string
  uEmail :: string
  uPhone :: string

record MsgService =
  sService :: string
  sSID :: string
  sAuthToken :: string
  sFrom :: string

text \<open>
  Modelled from the spec: the declarations of \<open>data.Rule\<close>, \<open>data.Condition\<close> and
  \<open>data.Action\<close> are missing; section 4.4 names the three child collections of a
  rule. The store only passes the conditions and actions on, so they are carried as the
  nodes' identifiers.
\<close>

record Rule =
  rID :: string
  rConditions :: "string list"
  rActions :: "string list"
  rActionsInactive :: "string list"

text \<open>\<open>nats.Msg\<close>: subject, reply subject (empty when the sender expects no reply)
  and payload.\<close>

record NatsMsg =
  msgSubject :: string
  msgReply :: string
  msgData :: string

subsection \<open>Node and point type constants\<close>

text \<open>
  Modelled from the spec: the declarations of the constants of package \<open>data\<close> are
  missing; their values are the type strings enumerated in section 3.
\<close>

definition NodeTypeUser :: string where "NodeTypeUser = ''user''"
definition NodeTypeDevice :: string where "NodeTypeDevice = ''device''"
definition NodeTypeRule :: string where "NodeTypeRule = ''rule''"
definition NodeTypeCondition :: string where "NodeTypeCondition = ''condition''"
definition NodeTypeAction :: string where "NodeTypeAction = ''action''"
definition NodeTypeActionInactive :: string where "NodeTypeActionInactive = ''actionInactive''"
definition NodeTypeMsgService :: string where "NodeTypeMsgService = ''msgService''"
definition NodeTypeDb :: string where "NodeTypeDb = ''db''"
definition NodeTypeJWT :: string where "NodeTypeJWT = ''jwt''"
definition PointTypeTombstone :: string where "PointTypeTombstone = ''tombstone''"
definition PointTypeEmail :: string where "PointTypeEmail = ''email''"
definition PointTypePass :: string where "PointTypePass = ''pass''"
definition PointTypeToken :: string where "PointTypeToken = ''token''"
definition PointValueTwilio :: string where "PointValueTwilio = ''twilio''"

subsection \<open>Collaborators of the store\<close>

text \<open>
  The methods of \<open>*Db\<close> (file \<open>db.go\<close>) are missing, so the handlers take them as
  parameters: \<open>'d\<close> is the database content and each field is one method,
  applied to the content it reads. The two writing methods return the new content.
\<close>

record 'd Db =
  nodePoints :: "'d \<Rightarrow> string \<Rightarrow> Point list \<Rightarrow> go_error option \<times> 'd"
  edgePoints :: "'d \<Rightarrow> string \<Rightarrow> string \<Rightarrow> Point list \<Rightarrow> go_error option \<times> 'd"
  node :: "'d \<Rightarrow> string \<Rightarrow> Node \<times> go_error option"
  nodeEdge :: "'d \<Rightarrow> string \<Rightarrow> string \<Rightarrow> NodeEdge list \<times> go_error option"
  nodeDescendents :: "'d \<Rightarrow> string \<Rightarrow> string \<Rightarrow> bool \<Rightarrow> bool \<Rightarrow> NodeEdge list \<times> go_error option"
  edgeUp :: "'d \<Rightarrow> string \<Rightarrow> bool \<Rightarrow> Edge list"
  userCheck :: "'d \<Rightarrow> string \<Rightarrow> string \<Rightarrow> NodeEdge list \<times> go_error option"
  rootNodeID :: "'d \<Rightarrow> string"

text \<open>
  \<open>pb.Node\<close> and \<open>pb.NodesRequest\<close>, the wire form of a reply that carries nodes
  (generated file \<open>node.pb.go\<close>).
\<close>

record PbNode =
  pbId :: string
  pbType :: string
  pbPoints :: "Point list"
  pbHash :: string
  pbTombstone :: bool
  pbParent :: string
  pbEdgePoints :: "Point list"

record NodesRequest =
  rqNodes :: "PbNode list"
  rqError :: string

text \<open>
  The functions of packages \<open>data\<close>, \<open>client\<close> and \<open>proto\<close> the handlers call
  (decoders, encoders, the typed views of a node), the token source \<open>st.key\<close> and
  the two questions the store asks about a time-series sink. None of them is
  available, so they are parameters as well. \<open>InfluxStale\<close> stands for the clock test
  \<open>time.Since(idb.lastChecked) > 20s\<close>. \<open>NodeIsTombstone\<close> is the first result of
  \<open>NodeEdge.IsTombstone\<close>.
\<close>

record Lib =
  DecodeNodePointsMsg :: "NatsMsg \<Rightarrow> (string \<times> Point list) \<times> go_error option"
  DecodeEdgePointsMsg :: "NatsMsg \<Rightarrow> (string \<times> string \<times> Point list) \<times> go_error option"
  PbDecodePoints :: "string \<Rightarrow> Point list \<times> go_error option"
  PbDecodeNotification :: "string \<Rightarrow> Notification \<times> go_error option"
  PbDecodeMessage :: "string \<Rightarrow> Message \<times> go_error option"
  UnmarshalNatsRequest :: "string \<Rightarrow> (string \<times> bool) \<times> go_error option"
  MessageToPb :: "Message \<Rightarrow> string \<times> go_error option"
  ToPbNodes :: "NodeEdge list \<Rightarrow> PbNode list \<times> go_error option"
  PointsFind :: "Point list \<Rightarrow> string \<Rightarrow> string \<Rightarrow> Point \<times> bool"
  NodeDesc :: "Node \<Rightarrow> string"
  NodeToUser :: "Node \<Rightarrow> User \<times> go_error option"
  NodeToMsgService :: "Node \<Rightarrow> MsgService \<times> go_error option"
  NodeToRule :: "NodeEdge \<Rightarrow> NodeEdge list \<Rightarrow> NodeEdge list \<Rightarrow> NodeEdge list
                  \<Rightarrow> Rule \<times> go_error option"
  NodeIsTombstone :: "NodeEdge \<Rightarrow> bool"
  EdgeIsTombstone :: "Edge \<Rightarrow> bool"
  RemoveDuplicateNodesID :: "NodeEdge list \<Rightarrow> NodeEdge list"
  NewToken :: "string \<Rightarrow> string \<times> go_error option"
  NodeToInfluxConfig :: "NodeEdge \<Rightarrow> go_error option"
  InfluxStale :: "string \<Rightarrow> bool"

text \<open>
  \<open>NodeEdge.ToNode\<close> and \<open>Node.ToNodeEdge\<close> copy the fields the two structs share;
  the parent and the edge points of a \<open>NodeEdge\<close> come from the edge.
\<close>

definition ToNode :: "NodeEdge \<Rightarrow> Node" where
  "ToNode n = \<lparr>nID = neID n, nType = neType n, nPoints = nePoints n\<rparr>"

definition ToNodeEdge :: "Node \<Rightarrow> Edge \<Rightarrow> NodeEdge" where
  "ToNodeEdge n e =
     \<lparr>neID = nID n, neType = nType n, neParent = eUp e, nePoints = nPoints n,
      neEdgePoints = ePoints e\<rparr>"

subsection \<open>Effects\<close>

text \<open>
  What a handler does to the outside, one constructor per call site of the source:
  \<open>st.nc.Publish\<close> of raw bytes, \<open>st.nc.Publish\<close> of a marshalled
  \<open>pb.NodesRequest\<close>, \<open>client.SendEdgePoint\<close> (which publishes an edge point for the
  edge child/parent without waiting for an acknowledgement), the three entry points of
  the rule engine (\<open>ruleProcessPoints\<close>, \<open>st.ruleRunActions\<close>,
  \<open>st.ruleRunInactiveActions\<close>; file \<open>rule.go\<close> is missing), the
  time-series sink, the SMS gateway, and the cycle-time sample a handler defers to its
  exit. A failing publish is only logged, so the attempt is the effect.
\<close>

datatype Event =
    Publish string string
  | PublishNodes string NodesRequest
  | SendEdgePoint string string Point
  | RuleProcessPoints Rule string "Point list"
  | RuleRunActions Rule "string list" string
  | RuleRunInactiveActions "string list"
  | InfluxConfigure string
  | InfluxCheckConfig string
  | InfluxWritePoints string string string "Point list"
  | SendSMS MsgService string string
  | MetricAddSample string

subsection \<open>Subjects and replies\<close>

text \<open>\<open>strings.Split(s, ".")\<close>: the result always has at least one chunk.\<close>

fun Split :: "string \<Rightarrow> string list" where
  "Split [] = [[]]"
| "Split (c # cs) =
     (if c = CHR ''.'' then [] # Split cs
      else (case Split cs of [] \<Rightarrow> [[c]] | x # xs \<Rightarrow> (c # x) # xs))"

text \<open>
  \<open>st.reply\<close>, used for messages that want an ACK: nothing is published when the
  message has no reply subject; otherwise the error's text, or the empty string.
\<close>

definition reply :: "string \<Rightarrow> go_error option \<Rightarrow> Event list" where
  "reply subject err =
     (if subject = [] then []
      else [Publish subject (case err of None \<Rightarrow> [] | Some e \<Rightarrow> ErrorText e)])"

section \<open>The rule node: \<open>processRuleNode\<close>\<close>

text \<open>
  \<open>ruleProcessPoints\<close> returns \<open>(active, changed, err)\<close>; an error is logged and the
  two flags are used as returned. Each of the four loading steps returns its error to
  the caller before anything is dispatched.
\<close>

type_synonym RuleEngine = "Rule \<Rightarrow> string \<Rightarrow> Point list \<Rightarrow> bool \<times> bool \<times> go_error option"

definition processRuleNode ::
  "'d Db \<Rightarrow> Lib \<Rightarrow> RuleEngine \<Rightarrow> 'd \<Rightarrow> NodeEdge \<Rightarrow> string \<Rightarrow> Point list
     \<Rightarrow> go_error option \<times> Event list" where
  "processRuleNode db lib ruleProcessPoints d ruleNode sourceNodeID points =
    (case nodeDescendents db d (neID ruleNode) NodeTypeCondition False False of
       (conditionNodes, Some err) \<Rightarrow> (Some err, [])
     | (conditionNodes, None) \<Rightarrow>
    (case nodeDescendents db d (neID ruleNode) NodeTypeAction False False of
       (actionNodes, Some err) \<Rightarrow> (Some err, [])
     | (actionNodes, None) \<Rightarrow>
    (case nodeDescendents db d (neID ruleNode) NodeTypeActionInactive False False of
       (actionInactiveNodes, Some err) \<Rightarrow> (Some err, [])
     | (actionInactiveNodes, None) \<Rightarrow>
    (case NodeToRule lib ruleNode conditionNodes actionNodes actionInactiveNodes of
       (rule, Some err) \<Rightarrow> (Some err, [])
     | (rule, None) \<Rightarrow>
    (case ruleProcessPoints rule sourceNodeID points of
       (active, changed, err) \<Rightarrow>
         (None,
          [RuleProcessPoints rule sourceNodeID points]
          @ (if active \<and> changed
             then [RuleRunActions rule (rActions rule) sourceNodeID,
                   RuleRunInactiveActions (rActionsInactive rule)]
             else [])
          @ (if \<not> active \<and> changed
             then [RuleRunActions rule (rActionsInactive rule) sourceNodeID,
                   RuleRunInactiveActions (rActions rule)]
             else [])))))))"

text \<open>The dispatching effects of a trace: actions run and actions reset.\<close>

fun isDispatch :: "Event \<Rightarrow> bool" where
  "isDispatch (RuleRunActions r as s) = True"
| "isDispatch (RuleRunInactiveActions as) = True"
| "isDispatch e = False"

section \<open>Upstream propagation: \<open>processPointsUpstream\<close>\<close>

text \<open>The loop over the rule nodes below the current node: the first error a rule
  node returns ends the propagation.\<close>

fun processRuleNodes ::
  "'d Db \<Rightarrow> Lib \<Rightarrow> RuleEngine \<Rightarrow> 'd \<Rightarrow> string \<Rightarrow> Point list \<Rightarrow> NodeEdge list
     \<Rightarrow> go_error option \<times> Event list" where
  "processRuleNodes db lib ruleProcessPoints d nodeID points [] = (None, [])"
| "processRuleNodes db lib ruleProcessPoints d nodeID points (ruleNode # rest) =
     (case processRuleNode db lib ruleProcessPoints d ruleNode nodeID points of
        (Some err, evs) \<Rightarrow> (Some err, evs)
      | (None, evs) \<Rightarrow>
          (case processRuleNodes db lib ruleProcessPoints d nodeID points rest of
             (e, evs') \<Rightarrow> (e, evs @ evs')))"

text \<open>
  The loop over the database-sink nodes. \<open>st.influxDbs\<close> is the list of sink node
  identifiers that already have a connection. A sink whose configuration does not
  convert is skipped.
\<close>

fun writeDbNodes ::
  "Lib \<Rightarrow> string \<Rightarrow> string \<Rightarrow> Point list \<Rightarrow> NodeEdge list \<Rightarrow> string list
     \<Rightarrow> Event list \<times> string list" where
  "writeDbNodes lib nodeID nodeDesc points [] influxDbs = ([], influxDbs)"
| "writeDbNodes lib nodeID nodeDesc points (dbNode # rest) influxDbs =
     (if neID dbNode \<notin> set influxDbs then
        (case NodeToInfluxConfig lib dbNode of
           Some err \<Rightarrow> writeDbNodes lib nodeID nodeDesc points rest influxDbs
         | None \<Rightarrow>
             (case writeDbNodes lib nodeID nodeDesc points rest (neID dbNode # influxDbs) of
                (evs, dbs) \<Rightarrow>
                  (InfluxConfigure (neID dbNode)
                     # InfluxWritePoints (neID dbNode) nodeID nodeDesc points # evs, dbs)))
      else if InfluxStale lib (neID dbNode) then
        (case NodeToInfluxConfig lib dbNode of
           Some err \<Rightarrow> writeDbNodes lib nodeID nodeDesc points rest influxDbs
         | None \<Rightarrow>
             (case writeDbNodes lib nodeID nodeDesc points rest influxDbs of
                (evs, dbs) \<Rightarrow>
                  (InfluxCheckConfig (neID dbNode)
                     # InfluxWritePoints (neID dbNode) nodeID nodeDesc points # evs, dbs)))
      else
        (case writeDbNodes lib nodeID nodeDesc points rest influxDbs of
           (evs, dbs) \<Rightarrow> (InfluxWritePoints (neID dbNode) nodeID nodeDesc points # evs, dbs)))"

text \<open>The point \<open>data.Point{Type: data.PointTypeTombstone, Value: 0}\<close>.\<close>

definition clearTombstone :: Point where
  "clearTombstone =
     \<lparr>pTime = 0, pType = PointTypeTombstone, pKey = [], pValue = 0, pText = [],
      pTombstone = 0\<rparr>"

text \<open>
  The check made when the walk stands on the node the points were written to: a device
  node none of whose parent edges is alive gets an edge point sent, for the parent
  \<open>"none"\<close> when it has no edge at all and for its first edge otherwise. \<open>edges\<close>
  is \<open>st.db.edgeUp(currentNodeID, true)\<close>, the deleted edges included.
\<close>

definition orphanRepair ::
  "'d Db \<Rightarrow> Lib \<Rightarrow> 'd \<Rightarrow> string \<Rightarrow> string \<Rightarrow> Edge list \<Rightarrow> Event list" where
  "orphanRepair db lib d currentNodeID nodeID edges =
     (if currentNodeID = nodeID then
        (case node db d nodeID of
           (n, err) \<Rightarrow>
             if nType n = NodeTypeDevice then
               (if list_ex (\<lambda>e. \<not> EdgeIsTombstone lib e) edges then []
                else (case edges of
                        [] \<Rightarrow> [SendEdgePoint nodeID ''none'' clearTombstone]
                      | e # es \<Rightarrow> [SendEdgePoint (eDown e) (eUp e) clearTombstone]))
             else [])
      else [])"

text \<open>
  The source recurses along the parent edges with no bound of its own, so the model
  counts the nesting depth down. A call either returns, with or without an error, or
  stops because the depth is used up; in both cases the effects performed up to that
  point are part of the result.
\<close>

datatype Outcome = Returned "go_error option" | OutOfDepth

text \<open>The final loop: the walk continues at the parent of every edge in turn; an
  error a parent returns is logged. The loop ends early only when the depth is used
  up.\<close>

fun upstreamEdges ::
  "(string \<Rightarrow> string list \<Rightarrow> Outcome \<times> Event list \<times> string list)
     \<Rightarrow> Edge list \<Rightarrow> string list \<Rightarrow> Outcome \<times> Event list \<times> string list" where
  "upstreamEdges visit [] influxDbs = (Returned None, [], influxDbs)"
| "upstreamEdges visit (edge # rest) influxDbs =
     (case visit (eUp edge) influxDbs of
        (OutOfDepth, evs, dbs) \<Rightarrow> (OutOfDepth, evs, dbs)
      | (Returned err, evs, dbs) \<Rightarrow>
          (case upstreamEdges visit rest dbs of
             (outcome, evs', dbs') \<Rightarrow> (outcome, evs @ evs', dbs')))"

text \<open>
  \<open>processPointsUpstream\<close>: the outcome, the effects in the order performed, and
  \<open>st.influxDbs\<close>. An error from loading or processing the rule nodes is returned at
  once, before the sinks, the orphan check and the upward walk.
\<close>

primrec processPointsUpstream ::
  "nat \<Rightarrow> 'd Db \<Rightarrow> Lib \<Rightarrow> RuleEngine \<Rightarrow> 'd \<Rightarrow> string \<Rightarrow> string \<Rightarrow> string \<Rightarrow> Point list
     \<Rightarrow> string list \<Rightarrow> Outcome \<times> Event list \<times> string list" where
  "processPointsUpstream 0 db lib ruleProcessPoints d currentNodeID nodeID nodeDesc points
     influxDbs = (OutOfDepth, [], influxDbs)"
| "processPointsUpstream (Suc fuel) db lib ruleProcessPoints d currentNodeID nodeID nodeDesc
     points influxDbs =
     (case nodeDescendents db d currentNodeID NodeTypeRule False False of
        (ruleNodes, Some err) \<Rightarrow> (Returned (Some err), [], influxDbs)
      | (ruleNodes, None) \<Rightarrow>
     (case processRuleNodes db lib ruleProcessPoints d nodeID points ruleNodes of
        (Some err, evs1) \<Rightarrow> (Returned (Some err), evs1, influxDbs)
      | (None, evs1) \<Rightarrow>
     (case writeDbNodes lib nodeID nodeDesc points
             (fst (nodeDescendents db d currentNodeID NodeTypeDb False False)) influxDbs of
        (evs2, dbs) \<Rightarrow>
     (case upstreamEdges
             (\<lambda>up. processPointsUpstream fuel db lib ruleProcessPoints d up nodeID nodeDesc
                     points)
             (edgeUp db d currentNodeID True) dbs of
        (outcome, evs4, dbs') \<Rightarrow>
          (outcome,
           evs1 @ evs2
             @ orphanRepair db lib d currentNodeID nodeID (edgeUp db d currentNodeID True)
             @ evs4,
           dbs')))))"

section \<open>Writing points: \<open>handleNodePoints\<close> and \<open>handleEdgePoints\<close>\<close>

text \<open>
  The state of the store a handler can change: the database content and the sink
  connections. The result of a handler is the new state and the effects;
  \<open>handleNodePoints\<close> has none (\<open>None\<close>) when the depth given for the upstream
  propagation is used up.
\<close>

definition handleNodePoints ::
  "nat \<Rightarrow> 'd Db \<Rightarrow> Lib \<Rightarrow> RuleEngine \<Rightarrow> 'd \<times> string list \<Rightarrow> NatsMsg
     \<Rightarrow> (('d \<times> string list) \<times> Event list) option" where
  "handleNodePoints fuel db lib ruleProcessPoints st msg =
     (case st of (d, influxDbs) \<Rightarrow>
     (case DecodeNodePointsMsg lib msg of
        (decoded, Some err) \<Rightarrow>
          Some ((d, influxDbs),
                reply (msgReply msg) (Some (GoError ''error decoding node points subject''))
                  @ [MetricAddSample ''metricCycleNodePoint''])
      | ((nodeID, points), None) \<Rightarrow>
     (case nodePoints db d nodeID points of
        (Some err, d') \<Rightarrow>
          Some ((d', influxDbs),
                reply (msgReply msg) (Some err) @ [MetricAddSample ''metricCycleNodePoint''])
      | (None, d') \<Rightarrow>
     (case processPointsUpstream fuel db lib ruleProcessPoints d' nodeID nodeID
             (NodeDesc lib (fst (node db d' nodeID))) points influxDbs of
        (OutOfDepth, evs, dbs) \<Rightarrow> None
      | (Returned err, evs, dbs) \<Rightarrow>
          Some ((d', dbs),
                evs @ reply (msgReply msg) None
                  @ [MetricAddSample ''metricCycleNodePoint''])))))"

text \<open>
  \<open>handleEdgePoints\<close>: after a failed write the source replies with the error and,
  having no \<open>return\<close> in that branch, goes on to the final \<open>st.reply(msg.Reply, nil)\<close>.
\<close>

definition handleEdgePoints ::
  "'d Db \<Rightarrow> Lib \<Rightarrow> 'd \<Rightarrow> NatsMsg \<Rightarrow> 'd \<times> Event list" where
  "handleEdgePoints db lib d msg =
     (case DecodeEdgePointsMsg lib msg of
        (decoded, Some err) \<Rightarrow>
          (d, reply (msgReply msg) (Some (GoError ''error decoding edge points subject''))
                @ [MetricAddSample ''metricCycleNodeEdgePoint''])
      | ((nodeID, parentID, points), None) \<Rightarrow>
          (case edgePoints db d nodeID parentID points of
             (err, d') \<Rightarrow>
               (d', (case err of None \<Rightarrow> [] | Some e \<Rightarrow> reply (msgReply msg) (Some e))
                      @ reply (msgReply msg) None
                      @ [MetricAddSample ''metricCycleNodeEdgePoint''])))"

section \<open>Reading nodes: \<open>handleNode\<close> and \<open>handleNodeChildren\<close>\<close>

text \<open>The tail both handlers jump to: encode the nodes, note an encoding error in the
  response, publish the response on the reply subject.\<close>

definition publishNodes ::
  "Lib \<Rightarrow> string \<Rightarrow> (go_error \<Rightarrow> string) \<Rightarrow> string \<Rightarrow> NodeEdge list \<Rightarrow> Event" where
  "publishNodes lib subject encodingError error nodes =
     (case ToPbNodes lib nodes of
        (pbNodes, None) \<Rightarrow> PublishNodes subject \<lparr>rqNodes = pbNodes, rqError = error\<rparr>
      | (pbNodes, Some err) \<Rightarrow>
          PublishNodes subject \<lparr>rqNodes = pbNodes, rqError = encodingError err\<rparr>)"

text \<open>The two texts of an encoding error, as \<open>fmt.Sprintf\<close> builds them.\<close>

definition errEncodingNode :: "go_error \<Rightarrow> string" where
  "errEncodingNode err = ''Error pb encoding node: '' @ ErrorText err @ [CHR 0x0A]"

definition errEncodingNodes :: "go_error \<Rightarrow> string" where
  "errEncodingNodes err = ''Error pb encoding nodes: '' @ ErrorText err"

text \<open>
  \<open>handleNode\<close> up to its label \<open>handleNodeDone\<close>: the error text of the response
  and \<open>nodesRet\<close>, the nodes that will be encoded. With the payload \<open>"all"\<close> the
  deleted instances are removed.
\<close>

definition handleNodeResp :: "'d Db \<Rightarrow> Lib \<Rightarrow> 'd \<Rightarrow> NatsMsg \<Rightarrow> string \<times> NodeEdge list" where
  "handleNodeResp db lib d msg =
     (let chunks = Split (msgSubject msg) in
      if length chunks < 2 then (''Error in message subject: '' @ msgSubject msg, [])
      else
        (let parent = msgData msg; nodeID = chunks ! 1 in
         case nodeEdge db d nodeID parent of
           (nodes, err) \<Rightarrow>
             (case err of
                None \<Rightarrow> []
              | Some e \<Rightarrow>
                  if e \<noteq> ErrDocumentNotFound
                  then ''NATS handler: Error getting node '' @ nodeID @ '' from db: ''
                         @ ErrorText e @ [CHR 0x0A]
                  else ErrorText ErrDocumentNotFound,
              if parent = ''all'' then filter (\<lambda>n. \<not> NodeIsTombstone lib n) nodes
              else nodes)))"

definition handleNode :: "'d Db \<Rightarrow> Lib \<Rightarrow> 'd \<Rightarrow> NatsMsg \<Rightarrow> Event list" where
  "handleNode db lib d msg =
     (case handleNodeResp db lib d msg of
        (error, nodesRet) \<Rightarrow>
          [publishNodes lib (msgReply msg) errEncodingNode error nodesRet,
           MetricAddSample ''metricCycleNode''])"

text \<open>
  \<open>handleNodeChildren\<close> up to its label \<open>handleNodeChildrenDone\<close>: the request
  parameters are the zero value \<open>{Type: "", IncludeDel: false}\<close> when the payload is
  empty. The descendants are always asked for with \<open>recursive = false\<close>.
\<close>

definition handleNodeChildrenResp ::
  "'d Db \<Rightarrow> Lib \<Rightarrow> 'd \<Rightarrow> NatsMsg \<Rightarrow> string \<times> NodeEdge list" where
  "handleNodeChildrenResp db lib d msg =
     (let chunks = Split (msgSubject msg) in
      if length chunks < 3 then (''Error in message subject: '' @ msgSubject msg, [])
      else
        (case (if length (msgData msg) > 0 then UnmarshalNatsRequest lib (msgData msg)
               else (([], False), None)) of
           (params, Some err) \<Rightarrow>
             (''Error decoding Node children request params: '' @ ErrorText err, [])
         | ((typ, includeDel), None) \<Rightarrow>
             (case nodeDescendents db d (chunks ! 1) typ False includeDel of
                (nodes, err) \<Rightarrow>
                  (case err of
                     None \<Rightarrow> []
                   | Some e \<Rightarrow>
                       ''NATS: Error getting node '' @ (chunks ! 1) @ '' from db: ''
                         @ ErrorText e @ [CHR 0x0A],
                   nodes))))"

definition handleNodeChildren :: "'d Db \<Rightarrow> Lib \<Rightarrow> 'd \<Rightarrow> NatsMsg \<Rightarrow> Event list" where
  "handleNodeChildren db lib d msg =
     (case handleNodeChildrenResp db lib d msg of
        (error, nodes) \<Rightarrow>
          [publishNodes lib (msgReply msg) errEncodingNodes error nodes,
           MetricAddSample ''metricCycleNodeChildren''])"

section \<open>Authentication: \<open>handleAuthUser\<close>\<close>

text \<open>\<open>returnNothing\<close> publishes a \<open>nil\<close> payload on the reply subject.\<close>

definition returnNothing :: "NatsMsg \<Rightarrow> Event list" where
  "returnNothing msg = [Publish (msgReply msg) []]"

definition handleAuthUser :: "'d Db \<Rightarrow> Lib \<Rightarrow> 'd \<Rightarrow> NatsMsg \<Rightarrow> Event list" where
  "handleAuthUser db lib d msg =
     (if length (msgData msg) \<le> 0 then returnNothing msg
      else
     (case PbDecodePoints lib (msgData msg) of
        (points, Some err) \<Rightarrow> returnNothing msg
      | (points, None) \<Rightarrow>
     (case PointsFind lib points PointTypeEmail [] of
        (emailP, False) \<Rightarrow> returnNothing msg
      | (emailP, True) \<Rightarrow>
     (case PointsFind lib points PointTypePass [] of
        (passP, False) \<Rightarrow> returnNothing msg
      | (passP, True) \<Rightarrow>
     (case userCheck db d (pText emailP) (pText passP) of
        (nodes, Some err) \<Rightarrow> returnNothing msg
      | ([], None) \<Rightarrow> returnNothing msg
      | (first # others, None) \<Rightarrow>
     (case NewToken lib (uID (fst (NodeToUser lib (ToNode first)))) of
        (token, Some err) \<Rightarrow> returnNothing msg
      | (token, None) \<Rightarrow>
          [publishNodes lib (msgReply msg) errEncodingNode []
             ((first # others)
                @ [\<lparr>neID = [], neType = NodeTypeJWT, neParent = [],
                    nePoints = [\<lparr>pTime = 0, pType = PointTypeToken, pKey = [], pValue = 0,
                                  pText = token, pTombstone = 0\<rparr>],
                    neEdgePoints = []\<rparr>])]))))))"

section \<open>Notification fan-out: \<open>handleNotification\<close>\<close>

text \<open>Running a step over a list of parent edges, giving up when a step does.\<close>

fun forEachUp :: "(string \<Rightarrow> 's \<Rightarrow> 's option) \<Rightarrow> Edge list \<Rightarrow> 's \<Rightarrow> 's option" where
  "forEachUp visit [] s = Some s"
| "forEachUp visit (e # es) s =
     (case visit (eUp e) s of None \<Rightarrow> None | Some s' \<Rightarrow> forEachUp visit es s')"

text \<open>
  The closure \<open>findUsers\<close>: the user nodes directly below \<open>id\<close> are appended to
  \<open>userNodes\<close>, then the walk goes on at every living parent. Like the upstream
  propagation it has no bound of its own and is given a depth.
\<close>

primrec findUsers ::
  "nat \<Rightarrow> 'd Db \<Rightarrow> 'd \<Rightarrow> string \<Rightarrow> NodeEdge list \<Rightarrow> NodeEdge list option" where
  "findUsers 0 db d ident userNodes = None"
| "findUsers (Suc fuel) db d ident userNodes =
     (case nodeDescendents db d ident NodeTypeUser False False of
        (nodes, Some err) \<Rightarrow> Some userNodes
      | (nodes, None) \<Rightarrow>
          forEachUp (findUsers fuel db d) (edgeUp db d ident False) (userNodes @ nodes))"

text \<open>
  The loop over the collected user nodes. \<open>uuidNew k\<close> is the \<open>k\<close>-th identifier
  \<open>uuid.New()\<close> hands out during the call; one is drawn for every message built.
\<close>

definition newMessage :: "string \<Rightarrow> User \<Rightarrow> NodeEdge \<Rightarrow> string \<Rightarrow> Notification \<Rightarrow> Message" where
  "newMessage uuid user userNode nodeID nt =
     \<lparr>mID = uuid, mUserID = uID user, mParentID = neParent userNode,
      mNotificationID = nodeID, mEmail = uEmail user, mPhone = uPhone user,
      mSubject = ntSubject nt, mMessage = ntMessage nt\<rparr>"

fun notifyUsers ::
  "Lib \<Rightarrow> (nat \<Rightarrow> string) \<Rightarrow> string \<Rightarrow> Notification \<Rightarrow> nat \<Rightarrow> NodeEdge list \<Rightarrow> Event list" where
  "notifyUsers lib uuidNew nodeID nt k [] = []"
| "notifyUsers lib uuidNew nodeID nt k (userNode # rest) =
     (case NodeToUser lib (ToNode userNode) of
        (user, Some err) \<Rightarrow> notifyUsers lib uuidNew nodeID nt k rest
      | (user, None) \<Rightarrow>
          if uEmail user \<noteq> [] \<or> uPhone user \<noteq> [] then
            (case MessageToPb lib (newMessage (uuidNew k) user userNode nodeID nt) of
               (bytes, Some err) \<Rightarrow> notifyUsers lib uuidNew nodeID nt (Suc k) rest
             | (bytes, None) \<Rightarrow>
                 Publish (''node.'' @ uID user @ ''.msg'') bytes
                   # notifyUsers lib uuidNew nodeID nt (Suc k) rest)
          else notifyUsers lib uuidNew nodeID nt k rest)"

text \<open>The user nodes the handler collects for a notification on \<open>nodeID\<close>.\<close>

definition collectUsers ::
  "nat \<Rightarrow> 'd Db \<Rightarrow> 'd \<Rightarrow> string \<Rightarrow> Notification \<Rightarrow> Node \<Rightarrow> NodeEdge list option" where
  "collectUsers fuel db d nodeID nt n =
     (if nType n = NodeTypeUser
      then Some [ToNodeEdge n \<lparr>eID = [], eUp = ntParent nt, eDown = [], ePoints = []\<rparr>]
      else findUsers fuel db d nodeID [])"

definition handleNotification ::
  "nat \<Rightarrow> 'd Db \<Rightarrow> Lib \<Rightarrow> (nat \<Rightarrow> string) \<Rightarrow> 'd \<Rightarrow> NatsMsg \<Rightarrow> Event list option" where
  "handleNotification fuel db lib uuidNew d msg =
     (let chunks = Split (msgSubject msg) in
      if length chunks < 2 then Some []
      else
        (case PbDecodeNotification lib (msgData msg) of
           (nt, Some err) \<Rightarrow> Some []
         | (nt, None) \<Rightarrow>
        (case node db d (chunks ! 1) of
           (n, Some err) \<Rightarrow> Some []
         | (n, None) \<Rightarrow>
        (case collectUsers fuel db d (chunks ! 1) nt n of
           None \<Rightarrow> None
         | Some userNodes \<Rightarrow> Some (notifyUsers lib uuidNew (chunks ! 1) nt 0 userNodes)))))"

section \<open>Message delivery: \<open>handleMessage\<close>\<close>

text \<open>
  The closure \<open>findSvcNodes\<close> shares two variables with the handler: the collected
  service nodes and the counter \<open>level\<close>, which is 0 in the first call only and is
  incremented by every call that gets its descendants. In the first call the only
  parent followed is \<open>message.ParentID\<close>; in every other call the parents are
  \<open>st.db.edgeUp(id, false)\<close>.
\<close>

primrec findSvcNodes ::
  "nat \<Rightarrow> 'd Db \<Rightarrow> 'd \<Rightarrow> Message \<Rightarrow> string \<Rightarrow> NodeEdge list \<times> nat
     \<Rightarrow> (NodeEdge list \<times> nat) option" where
  "findSvcNodes 0 db d message ident st = None"
| "findSvcNodes (Suc fuel) db d message ident st =
     (case st of (svcNodes, level) \<Rightarrow>
     (case nodeDescendents db d ident NodeTypeMsgService False False of
        (nodes, Some err) \<Rightarrow> Some (svcNodes, level)
      | (nodes, None) \<Rightarrow>
          forEachUp (findSvcNodes fuel db d message)
            (if level = 0
             then [\<lparr>eID = [], eUp = mParentID message, eDown = [], ePoints = []\<rparr>]
             else edgeUp db d ident False)
            (svcNodes @ nodes, level + 1)))"

text \<open>The loop over the services: an SMS goes out through every Twilio service when
  the message has a phone number.\<close>

fun sendToServices :: "Lib \<Rightarrow> Message \<Rightarrow> NodeEdge list \<Rightarrow> Event list" where
  "sendToServices lib message [] = []"
| "sendToServices lib message (svcNode # rest) =
     (case NodeToMsgService lib (ToNode svcNode) of
        (svc, Some err) \<Rightarrow> sendToServices lib message rest
      | (svc, None) \<Rightarrow>
          if sService svc = PointValueTwilio \<and> mPhone message \<noteq> []
          then SendSMS svc (mPhone message) (mMessage message)
                 # sendToServices lib message rest
          else sendToServices lib message rest)"

definition handleMessage :: "nat \<Rightarrow> 'd Db \<Rightarrow> Lib \<Rightarrow> 'd \<Rightarrow> NatsMsg \<Rightarrow> Event list option" where
  "handleMessage fuel db lib d natsMsg =
     (let chunks = Split (msgSubject natsMsg) in
      if length chunks < 2 then Some []
      else
        (case PbDecodeMessage lib (msgData natsMsg) of
           (message, Some err) \<Rightarrow> Some []
         | (message, None) \<Rightarrow>
             (case findSvcNodes fuel db d message (chunks ! 1) ([], 0) of
                None \<Rightarrow> None
              | Some (svcNodes, level) \<Rightarrow>
                  Some (sendToServices lib message (RemoveDuplicateNodesID lib svcNodes)))))"

section \<open>Notions used in the statements\<close>

text \<open>The user a collected node stands for, whether that user can be reached, and the
  subject its messages are published on.\<close>

definition userOf :: "Lib \<Rightarrow> NodeEdge \<Rightarrow> User" where
  "userOf lib userNode = fst (NodeToUser lib (ToNode userNode))"

definition hasContact :: "Lib \<Rightarrow> NodeEdge \<Rightarrow> bool" where
  "hasContact lib userNode =
     (uEmail (userOf lib userNode) \<noteq> [] \<or> uPhone (userOf lib userNode) \<noteq> [])"

definition userSubject :: "Lib \<Rightarrow> NodeEdge \<Rightarrow> string" where
  "userSubject lib userNode = ''node.'' @ uID (userOf lib userNode) @ ''.msg''"

text \<open>A collected node that converts to a user with contact data, and the message
  built for it from the identifier drawn.\<close>

definition notifiable :: "Lib \<Rightarrow> NodeEdge \<Rightarrow> bool" where
  "notifiable lib userNode =
     (snd (NodeToUser lib (ToNode userNode)) = None \<and> hasContact lib userNode)"

definition messageFor :: "Lib \<Rightarrow> string \<Rightarrow> Notification \<Rightarrow> string \<Rightarrow> NodeEdge \<Rightarrow> Message" where
  "messageFor lib nodeID nt uuid userNode =
     newMessage uuid (userOf lib userNode) userNode nodeID nt"

text \<open>
  The walk of the message services as the specification words it, without the shared
  counter: at a deeper level the services directly below the node are taken and every
  living parent edge is followed; at the source level the services directly below the
  node are taken and only the parent recorded in the message is followed. A node whose
  descendants cannot be read contributes nothing and is not left upward. The depth
  bound is the one of \<open>findSvcNodes\<close>.
\<close>

fun collectUp :: "(string \<Rightarrow> NodeEdge list option) \<Rightarrow> string list \<Rightarrow> NodeEdge list option" where
  "collectUp walk [] = Some []"
| "collectUp walk (p # ps) =
     (case walk p of
        None \<Rightarrow> None
      | Some xs \<Rightarrow> (case collectUp walk ps of None \<Rightarrow> None | Some ys \<Rightarrow> Some (xs @ ys)))"

primrec svcWalkDeeper :: "nat \<Rightarrow> 'd Db \<Rightarrow> 'd \<Rightarrow> string \<Rightarrow> NodeEdge list option" where
  "svcWalkDeeper 0 db d ident = None"
| "svcWalkDeeper (Suc fuel) db d ident =
     (case nodeDescendents db d ident NodeTypeMsgService False False of
        (nodes, Some err) \<Rightarrow> Some []
      | (nodes, None) \<Rightarrow>
          (case collectUp (svcWalkDeeper fuel db d) (map eUp (edgeUp db d ident False)) of
             None \<Rightarrow> None
           | Some higher \<Rightarrow> Some (nodes @ higher)))"

definition svcWalkSource :: "nat \<Rightarrow> 'd Db \<Rightarrow> 'd \<Rightarrow> Message \<Rightarrow> string \<Rightarrow> NodeEdge list option" where
  "svcWalkSource fuel db d message ident =
     (case fuel of
        0 \<Rightarrow> None
      | Suc fuel' \<Rightarrow>
          (case nodeDescendents db d ident NodeTypeMsgService False False of
             (nodes, Some err) \<Rightarrow> Some []
           | (nodes, None) \<Rightarrow>
               (case svcWalkDeeper fuel' db d (mParentID message) of
                  None \<Rightarrow> None
                | Some higher \<Rightarrow> Some (nodes @ higher))))"

section \<open>A reference database\<close>

text \<open>
  Modelled from the spec: the database (file \<open>db.go\<close>) is missing.
  Section 3 gives its content, one root, a set of nodes and a set of parent/child edges
  with their own points, and section 4.1 its operations. The definitions below follow those
  words. They serve as the instance of the \<open>Db\<close> parameter wherever a statement is about
  the database itself, and as the database of the worked examples.
\<close>

record Tree =
  tRoot :: string
  tNodes :: "Node list"
  tEdges :: "Edge list"

text \<open>Modelled from the spec: a point slot is identified by type and key (section 3,
  invariant 4); \<open>findPoint\<close> returns the slot's point and whether there is one.\<close>

fun findPoint :: "Point list \<Rightarrow> string \<Rightarrow> string \<Rightarrow> Point \<times> bool" where
  "findPoint [] typ key =
     (\<lparr>pTime = 0, pType = [], pKey = [], pValue = 0, pText = [], pTombstone = 0\<rparr>, False)"
| "findPoint (p # ps) typ key =
     (if pType p = typ \<and> pKey p = key then (p, True) else findPoint ps typ key)"

text \<open>Modelled from the spec: an edge point of type \<open>tombstone\<close> with non-zero value
  removes the relation.\<close>

definition tombstoned :: "Point list \<Rightarrow> bool" where
  "tombstoned ps =
     (case findPoint ps PointTypeTombstone [] of (p, ok) \<Rightarrow> ok \<and> pValue p \<noteq> 0)"

text \<open>Modelled from the spec: last-writer-wins merge, a strictly greater time replaces
  the stored point and an equal time keeps it.\<close>

fun mergePoint :: "Point \<Rightarrow> Point list \<Rightarrow> Point list" where
  "mergePoint p [] = [p]"
| "mergePoint p (q # qs) =
     (if pType q = pType p \<and> pKey q = pKey p
      then (if pTime q < pTime p then p # qs else q # qs)
      else q # mergePoint p qs)"

definition mergePoints :: "Point list \<Rightarrow> Point list \<Rightarrow> Point list" where
  "mergePoints new stored = foldl (\<lambda>acc p. mergePoint p acc) stored new"

text \<open>Modelled from the spec: the direct children of a node, each seen through the
  edge that leads to it; tombstoned edges are omitted unless requested.\<close>

definition treeChildren :: "Tree \<Rightarrow> string \<Rightarrow> bool \<Rightarrow> NodeEdge list" where
  "treeChildren t ident includeDel =
     concat (map (\<lambda>e. map (\<lambda>n. ToNodeEdge n e) (filter (\<lambda>n. nID n = eDown e) (tNodes t)))
               (filter (\<lambda>e. eUp e = ident \<and> (includeDel \<or> \<not> tombstoned (ePoints e)))
                  (tEdges t)))"

text \<open>Modelled from the spec: breadth-first iteration below a node, with a visited set
  as cycle guard.\<close>

function treeBfs :: "Tree \<Rightarrow> bool \<Rightarrow> string list \<Rightarrow> string list \<Rightarrow> NodeEdge list" where
  "treeBfs t includeDel visited [] = []"
| "treeBfs t includeDel visited (ident # queue) =
     (if ident \<in> set visited then treeBfs t includeDel visited queue
      else treeChildren t ident includeDel
             @ treeBfs t includeDel (ident # visited)
                 (queue @ map neID (treeChildren t ident includeDel)))"
  by pat_completeness auto

termination treeBfs
proof (relation "measures [\<lambda>(t, del, visited, queue). card (eUp ` set (tEdges t) - set visited),
                           \<lambda>(t, del, visited, queue). length queue]", goal_cases)
  case 1
  show ?case by simp
next
  case (2 t includeDel visited ident queue)
  then show ?case by simp
next
  case (3 t includeDel visited ident queue)
  show ?case
  proof (cases "ident \<in> eUp ` set (tEdges t)")
    case True
    have "eUp ` set (tEdges t) - set (ident # visited) \<subset> eUp ` set (tEdges t) - set visited"
      using True 3 by auto
    then have "card (eUp ` set (tEdges t) - set (ident # visited))
                 < card (eUp ` set (tEdges t) - set visited)"
      by (intro psubset_card_mono) auto
    then show ?thesis by simp
  next
    case False
    then have "treeChildren t ident includeDel = []"
      by (auto simp: treeChildren_def filter_empty_conv)
    moreover
    have "eUp ` set (tEdges t) - set (ident # visited) = eUp ` set (tEdges t) - set visited"
      using False by auto
    ultimately show ?thesis by simp
  qed
qed

text \<open>Modelled from the spec: \<open>Descendants(id, typeFilter, recursive,
  includeTombstoned)\<close> filters by node type when the filter is non-empty.\<close>

definition treeDescendents ::
  "Tree \<Rightarrow> string \<Rightarrow> string \<Rightarrow> bool \<Rightarrow> bool \<Rightarrow> NodeEdge list \<times> go_error option" where
  "treeDescendents t ident typ recursive includeDel =
     (filter (\<lambda>n. typ = [] \<or> neType n = typ)
        (if recursive then treeBfs t includeDel [] [ident]
         else treeChildren t ident includeDel),
      None)"

text \<open>Modelled from the spec: \<open>EdgesUp(id, includeTombstoned)\<close>, the parent edges of
  a node.\<close>

definition treeEdgeUp :: "Tree \<Rightarrow> string \<Rightarrow> bool \<Rightarrow> Edge list" where
  "treeEdgeUp t ident includeDel =
     filter (\<lambda>e. eDown e = ident \<and> (includeDel \<or> \<not> tombstoned (ePoints e))) (tEdges t)"

text \<open>Modelled from the spec: \<open>Node(id)\<close> and \<open>NodeEdge(id, parent)\<close>; a missing node
  is reported with the not-found sentinel. With parent \<open>"all"\<close> every instance of the
  node is returned, the tombstoned ones included.\<close>

definition treeNode :: "Tree \<Rightarrow> string \<Rightarrow> Node \<times> go_error option" where
  "treeNode t ident =
     (case filter (\<lambda>n. nID n = ident) (tNodes t) of
        [] \<Rightarrow> (\<lparr>nID = [], nType = [], nPoints = []\<rparr>, Some ErrDocumentNotFound)
      | n # ns \<Rightarrow> (n, None))"

definition treeNodeEdge :: "Tree \<Rightarrow> string \<Rightarrow> string \<Rightarrow> NodeEdge list \<times> go_error option" where
  "treeNodeEdge t ident parent =
     (case treeNode t ident of
        (n, Some err) \<Rightarrow> ([], Some err)
      | (n, None) \<Rightarrow>
          (map (ToNodeEdge n)
             (filter (\<lambda>e. eDown e = ident \<and> (parent = ''all'' \<or> eUp e = parent)) (tEdges t)),
           None))"

text \<open>Modelled from the spec: \<open>UserCheck(email, pass)\<close>, the lookup of user-typed
  nodes by their \<open>email\<close> and \<open>pass\<close> points.\<close>

definition treeUserCheck :: "Tree \<Rightarrow> string \<Rightarrow> string \<Rightarrow> NodeEdge list \<times> go_error option" where
  "treeUserCheck t email pass =
     (concat (map (\<lambda>n. map (ToNodeEdge n) (treeEdgeUp t (nID n) False))
                (filter (\<lambda>n. nType n = NodeTypeUser
                              \<and> snd (findPoint (nPoints n) PointTypeEmail [])
                              \<and> pText (fst (findPoint (nPoints n) PointTypeEmail [])) = email
                              \<and> snd (findPoint (nPoints n) PointTypePass [])
                              \<and> pText (fst (findPoint (nPoints n) PointTypePass [])) = pass)
                   (tNodes t))),
      None)"

text \<open>Modelled from the spec: \<open>MergePoints\<close> creates the node record when it is
  absent, its type taken from a co-submitted \<open>nodeType\<close> point.\<close>

definition treeNodePoints :: "Tree \<Rightarrow> string \<Rightarrow> Point list \<Rightarrow> go_error option \<times> Tree" where
  "treeNodePoints t ident points =
     (None,
      if list_ex (\<lambda>n. nID n = ident) (tNodes t)
      then t\<lparr>tNodes := map (\<lambda>n. if nID n = ident
                                 then n\<lparr>nPoints := mergePoints points (nPoints n)\<rparr> else n)
                          (tNodes t)\<rparr>
      else t\<lparr>tNodes := tNodes t
                 @ [\<lparr>nID = ident, nType = pText (fst (findPoint points ''nodeType'' [])),
                     nPoints = mergePoints points []\<rparr>]\<rparr>)"

text \<open>Modelled from the spec: \<open>MergeEdgePoints\<close> creates the edge record when first
  written and refuses, with \<open>ErrCycle\<close>, an edge whose parent is the child itself or
  is reachable downward from the child.\<close>

definition ErrCycle :: go_error where
  "ErrCycle = GoError ''cycle detected''"

definition treeEdgePoints ::
  "Tree \<Rightarrow> string \<Rightarrow> string \<Rightarrow> Point list \<Rightarrow> go_error option \<times> Tree" where
  "treeEdgePoints t ident parent points =
     (if parent = ident \<or> parent \<in> neID ` set (treeBfs t True [] [ident])
      then (Some ErrCycle, t)
      else
        (None,
         if list_ex (\<lambda>e. eDown e = ident \<and> eUp e = parent) (tEdges t)
         then t\<lparr>tEdges := map (\<lambda>e. if eDown e = ident \<and> eUp e = parent
                                    then e\<lparr>ePoints := mergePoints points (ePoints e)\<rparr> else e)
                             (tEdges t)\<rparr>
         else t\<lparr>tEdges := tEdges t
                    @ [\<lparr>eID = [], eUp = parent, eDown = ident,
                        ePoints = mergePoints points []\<rparr>]\<rparr>))"

definition treeDb :: "Tree Db" where
  "treeDb =
     \<lparr>nodePoints = treeNodePoints, edgePoints = treeEdgePoints, node = treeNode,
      nodeEdge = treeNodeEdge, nodeDescendents = treeDescendents, edgeUp = treeEdgeUp,
      userCheck = treeUserCheck, rootNodeID = tRoot\<rparr>"

section \<open>A worked example\<close>

text \<open>
  A small installation on which the handlers are run: the root device \<open>R\<close> with the
  administrator \<open>A\<close>, two groups \<open>G1\<close> and \<open>G2\<close> below the root, a device \<open>D\<close> that
  is a member of both groups and owns the rule \<open>rule1\<close> (one condition, one action, one
  inactive action), the users \<open>U1\<close> (a phone number) and \<open>U2\<close> (no contact data) and
  the SMS service \<open>S\<close> in \<open>G1\<close>, the user \<open>U1\<close> again and the SMS service \<open>S2\<close>
  in \<open>G2\<close>, a device \<open>X\<close> whose only edge, to \<open>G2\<close>, is
  tombstoned, and a device \<open>Y\<close> with no edge at all. \<open>U2\<close> was a member of \<open>G2\<close>
  as well; that edge is tombstoned.
\<close>

definition exText :: "string \<Rightarrow> string \<Rightarrow> Point" where
  "exText typ txt =
     \<lparr>pTime = 1, pType = typ, pKey = [], pValue = 0, pText = txt, pTombstone = 0\<rparr>"

definition exNumber :: "string \<Rightarrow> real \<Rightarrow> Point" where
  "exNumber typ v =
     \<lparr>pTime = 1, pType = typ, pKey = [], pValue = v, pText = [], pTombstone = 0\<rparr>"

definition exNode :: "string \<Rightarrow> string \<Rightarrow> Point list \<Rightarrow> Node" where
  "exNode ident typ ps = \<lparr>nID = ident, nType = typ, nPoints = ps\<rparr>"

definition exEdge :: "string \<Rightarrow> string \<Rightarrow> Point list \<Rightarrow> Edge" where
  "exEdge child parent ps = \<lparr>eID = [], eUp = parent, eDown = child, ePoints = ps\<rparr>"

definition exTree :: Tree where
  "exTree =
     \<lparr>tRoot = ''R'',
      tNodes =
        [exNode ''R'' ''device'' [], exNode ''A'' ''user'' [exText ''email'' ''a@x'', exText ''pass'' ''pw''],
         exNode ''G1'' ''group'' [], exNode ''G2'' ''group'' [],
         exNode ''D'' ''device'' [], exNode ''rule1'' ''rule'' [],
         exNode ''c1'' ''condition'' [], exNode ''a1'' ''action'' [],
         exNode ''i1'' ''actionInactive'' [],
         exNode ''U1'' ''user'' [exText ''phone'' ''555''], exNode ''U2'' ''user'' [],
         exNode ''S'' ''msgService'' [exText ''service'' ''twilio''],
         exNode ''S2'' ''msgService'' [exText ''service'' ''twilio''],
         exNode ''X'' ''device'' [], exNode ''Y'' ''device'' []],
      tEdges =
        [exEdge ''A'' ''R'' [], exEdge ''G1'' ''R'' [], exEdge ''G2'' ''R'' [],
         exEdge ''D'' ''G1'' [], exEdge ''D'' ''G2'' [], exEdge ''rule1'' ''D'' [],
         exEdge ''c1'' ''rule1'' [], exEdge ''a1'' ''rule1'' [], exEdge ''i1'' ''rule1'' [],
         exEdge ''U1'' ''G1'' [], exEdge ''U2'' ''G1'' [], exEdge ''S'' ''G1'' [],
         exEdge ''U1'' ''G2'' [], exEdge ''S2'' ''G2'' [],
         exEdge ''X'' ''G2'' [exNumber ''tombstone'' 1],
         exEdge ''U2'' ''G2'' [exNumber ''tombstone'' 1]]\<rparr>"

text \<open>
  Stand-ins for the library functions. The wire formats are toy ones: a payload is the
  text of one point or of a notification, or the parent of a message, and the payload \<open>bad\<close> does
  not decode (a login payload is the email address, the password being \<open>pw\<close>); a points subject must have three chunks, an edge-points subject four.
\<close>

fun exDistinctID :: "NodeEdge list \<Rightarrow> NodeEdge list" where
  "exDistinctID [] = []"
| "exDistinctID (n # ns) = n # exDistinctID (filter (\<lambda>m. neID m \<noteq> neID n) ns)"

definition exLib :: Lib where
  "exLib =
     \<lparr>DecodeNodePointsMsg =
        (\<lambda>m. case Split (msgSubject m) of
                [a, ident, b] \<Rightarrow>
                  if msgData m = ''bad'' then (([], []), Some (GoError ''proto: cannot parse''))
                  else ((ident, [exText ''description'' (msgData m)]), None)
              | cs \<Rightarrow> (([], []), Some (GoError ''bad subject''))),
      DecodeEdgePointsMsg =
        (\<lambda>m. case Split (msgSubject m) of
                [a, parent, child, b] \<Rightarrow>
                  if msgData m = ''bad'' then (([], [], []), Some (GoError ''proto: cannot parse''))
                  else ((child, parent, [exNumber ''tombstone'' 0]), None)
              | cs \<Rightarrow> (([], [], []), Some (GoError ''bad subject''))),
      PbDecodePoints =
        (\<lambda>s. if s = ''bad'' then ([], Some (GoError ''proto: cannot parse''))
              else if s = ''noemail'' then ([exText ''pass'' ''pw''], None)
              else if s = ''nopass'' then ([exText ''email'' s], None)
              else ([exText ''email'' s, exText ''pass'' ''pw''], None)),
      PbDecodeNotification =
        (\<lambda>s. if s = ''bad''
              then (\<lparr>ntID = [], ntParent = [], ntSubject = [], ntMessage = []\<rparr>,
                    Some (GoError ''proto: cannot parse''))
              else (\<lparr>ntID = ''n1'', ntParent = ''G1'', ntSubject = ''alarm'', ntMessage = s\<rparr>,
                    None)),
      PbDecodeMessage =
        (\<lambda>s. if s = ''bad''
              then (\<lparr>mID = [], mUserID = [], mParentID = [], mNotificationID = [],
                     mEmail = [], mPhone = [], mSubject = [], mMessage = []\<rparr>,
                    Some (GoError ''proto: cannot parse''))
              else (\<lparr>mID = ''m1'', mUserID = ''U1'', mParentID = s,
                     mNotificationID = ''D'', mEmail = [], mPhone = ''555'',
                     mSubject = ''alarm'', mMessage = ''hot''\<rparr>, None)),
      UnmarshalNatsRequest =
        (\<lambda>s. if s = ''bad'' then (([], False), Some (GoError ''proto: cannot parse''))
              else if s = ''del'' then (([], True), None) else ((s, False), None)),
      MessageToPb = (\<lambda>m. (mID m @ ''|'' @ mParentID m @ ''|'' @ mMessage m, None)),
      ToPbNodes =
        (\<lambda>ns. (map (\<lambda>n. \<lparr>pbId = neID n, pbType = neType n, pbPoints = nePoints n,
                            pbHash = [], pbTombstone = tombstoned (neEdgePoints n),
                            pbParent = neParent n, pbEdgePoints = neEdgePoints n\<rparr>) ns,
                None)),
      PointsFind = findPoint,
      NodeDesc = (\<lambda>n. pText (fst (findPoint (nPoints n) ''description'' []))),
      NodeToUser =
        (\<lambda>n. (\<lparr>uID = nID n, uEmail = pText (fst (findPoint (nPoints n) ''email'' [])),
                 uPhone = pText (fst (findPoint (nPoints n) ''phone'' []))\<rparr>,
               if nType n = ''user'' then None else Some (GoError ''not a user node''))),
      NodeToMsgService =
        (\<lambda>n. (\<lparr>sService = pText (fst (findPoint (nPoints n) ''service'' [])),
                 sSID = nID n, sAuthToken = [], sFrom = []\<rparr>, None)),
      NodeToRule =
        (\<lambda>r cs as is.
           (\<lparr>rID = neID r, rConditions = map neID cs, rActions = map neID as,
             rActionsInactive = map neID is\<rparr>, None)),
      NodeIsTombstone = (\<lambda>n. tombstoned (neEdgePoints n)),
      EdgeIsTombstone = (\<lambda>e. tombstoned (ePoints e)),
      RemoveDuplicateNodesID = exDistinctID,
      NewToken = (\<lambda>ident. (''token-'' @ ident, None)),
      NodeToInfluxConfig = (\<lambda>n. None),
      InfluxStale = (\<lambda>ident. False)\<rparr>"

text \<open>A rule engine for the example: the rule is active when a point exceeds 10, and
  its state changes with every \<open>value\<close> point.\<close>

definition exEngine :: RuleEngine where
  "exEngine rule sourceNodeID points =
     (list_ex (\<lambda>p. 10 < pValue p) points, list_ex (\<lambda>p. pType p = ''value'') points, None)"

definition exUuid :: "nat \<Rightarrow> string" where
  "exUuid k = ''uuid-'' @ replicate k CHR ''i''"


definition exRuleNode :: NodeEdge where
  "exRuleNode = ToNodeEdge (exNode ''rule1'' ''rule'' []) (exEdge ''rule1'' ''D'' [])"

definition exRule :: Rule where
  "exRule =
     \<lparr>rID = ''rule1'', rConditions = [''c1''], rActions = [''a1''],
      rActionsInactive = [''i1'']\<rparr>"

definition exNot :: "string \<Rightarrow> NatsMsg" where
  "exNot ident = \<lparr>msgSubject = ''node.'' @ ident @ ''.not'', msgReply = [], msgData = ''hot''\<rparr>"

definition exMsg :: "string \<Rightarrow> NatsMsg" where
  "exMsg parent = \<lparr>msgSubject = ''node.U1.msg'', msgReply = [], msgData = parent\<rparr>"

definition exRead :: "string \<Rightarrow> string \<Rightarrow> NatsMsg" where
  "exRead subject payload = \<lparr>msgSubject = subject, msgReply = ''inbox'', msgData = payload\<rparr>"

definition exAuth :: "string \<Rightarrow> NatsMsg" where
  "exAuth payload = \<lparr>msgSubject = ''auth.user'', msgReply = ''inbox'', msgData = payload\<rparr>"

section \<open>Properties of the rule node\<close>

text \<open>
  Claim C1. Action dispatch in \<open>processRuleNode\<close> is edge-triggered. For every
  invocation, the dispatching effects are determined as follows: when the rule was
  loaded and \<open>ruleProcessPoints\<close> reports \<open>changed\<close>, then on \<open>active\<close> the
  collection \<open>Actions\<close> is run and \<open>ActionsInactive\<close> is reset, and on not
  \<open>active\<close> the collection \<open>ActionsInactive\<close> is run and \<open>Actions\<close> is reset; in
  every other case, in particular when the activation is unchanged, nothing is run and
  nothing is reset.
\<close>

theorem processRuleNode_edge_triggered:
  "filter isDispatch
     (snd (processRuleNode db lib ruleProcessPoints d ruleNode sourceNodeID points)) =
    (case nodeDescendents db d (neID ruleNode) NodeTypeCondition False False of
       (conditionNodes, e1) \<Rightarrow>
     case nodeDescendents db d (neID ruleNode) NodeTypeAction False False of
       (actionNodes, e2) \<Rightarrow>
     case nodeDescendents db d (neID ruleNode) NodeTypeActionInactive False False of
       (actionInactiveNodes, e3) \<Rightarrow>
     case NodeToRule lib ruleNode conditionNodes actionNodes actionInactiveNodes of
       (rule, e4) \<Rightarrow>
     case ruleProcessPoints rule sourceNodeID points of
       (active, changed, err) \<Rightarrow>
         if e1 = None \<and> e2 = None \<and> e3 = None \<and> e4 = None \<and> changed
         then (if active
               then [RuleRunActions rule (rActions rule) sourceNodeID,
                     RuleRunInactiveActions (rActionsInactive rule)]
               else [RuleRunActions rule (rActionsInactive rule) sourceNodeID,
                     RuleRunInactiveActions (rActions rule)])
         else [])"
  by (simp add: processRuleNode_def split: prod.splits option.splits)

text \<open>On the example rule: a value of 15 is an edge to active, a value of 5 an edge to
  inactive, and a point that does not change the activation dispatches nothing.\<close>

theorem processRuleNode_edge_triggered_witness:
  "filter isDispatch (snd (processRuleNode treeDb exLib exEngine exTree exRuleNode ''D''
       [exNumber ''value'' 15]))
     = [RuleRunActions exRule [''a1''] ''D'', RuleRunInactiveActions [''i1'']]
   \<and> filter isDispatch (snd (processRuleNode treeDb exLib exEngine exTree exRuleNode ''D''
       [exNumber ''value'' 5]))
     = [RuleRunActions exRule [''i1''] ''D'', RuleRunInactiveActions [''a1'']]
   \<and> filter isDispatch (snd (processRuleNode treeDb exLib exEngine exTree exRuleNode ''D''
       [exNumber ''description'' 15]))
     = []"
  unfolding processRuleNode_edge_triggered
  by code_simp

section \<open>Properties of the writing handlers\<close>

text \<open>
  Claim C2, as amended. For every message on \<open>node.<id>.points\<close> whose payload fails
  to decode, the store state (database content and sink connections) is left as it
  was and nothing but the reply and the cycle-time sample happens: no point is written,
  no rule is evaluated, nothing is forwarded to a sink. The reply is the non-empty
  text \<open>error decoding node points subject\<close>, and it is published only when the
  message carries a reply subject. The handler returns whatever depth it is given.
\<close>

theorem handleNodePoints_decode_failure:
  assumes "DecodeNodePointsMsg lib msg = (decoded, Some err)"
  shows "handleNodePoints fuel db lib ruleProcessPoints (d, influxDbs) msg =
     Some ((d, influxDbs),
           (if msgReply msg = [] then []
            else [Publish (msgReply msg) ''error decoding node points subject''])
             @ [MetricAddSample ''metricCycleNodePoint''])"
  using assms by (simp add: handleNodePoints_def reply_def)

theorem handleNodePoints_decode_failure_witness:
  "DecodeNodePointsMsg exLib
       \<lparr>msgSubject = ''node.D.points'', msgReply = ''inbox'', msgData = ''bad''\<rparr>
     = (([], []), Some (GoError ''proto: cannot parse''))
   \<and> handleNodePoints 0 treeDb exLib exEngine (exTree, [])
       \<lparr>msgSubject = ''node.D.points'', msgReply = ''inbox'', msgData = ''bad''\<rparr>
     = Some ((exTree, []),
             [Publish ''inbox'' ''error decoding node points subject'',
              MetricAddSample ''metricCycleNodePoint''])"
proof -
  have dec: "DecodeNodePointsMsg exLib
               \<lparr>msgSubject = ''node.D.points'', msgReply = ''inbox'', msgData = ''bad''\<rparr>
             = (([], []), Some (GoError ''proto: cannot parse''))"
    by code_simp
  show ?thesis
    using dec handleNodePoints_decode_failure [OF dec, of 0 treeDb exEngine exTree "[]"]
    by simp
qed

text \<open>
  Claim C2 as stated fails for a message that was published without a reply subject:
  its payload does not decode, and no reply at all is published.
\<close>

theorem handleNodePoints_decode_failure_no_reply:
  "handleNodePoints 5 treeDb exLib exEngine (exTree, [])
       \<lparr>msgSubject = ''node.D.points'', msgReply = [], msgData = ''bad''\<rparr>
     = Some ((exTree, []), [MetricAddSample ''metricCycleNodePoint''])"
  by code_simp

text \<open>
  Claim C4 asks for exactly one reply to a message on \<open>node.<parent>.<child>.points\<close>
  that carries a reply subject. The source does otherwise when the write fails: it
  publishes the error description and then, on the same reply subject, the empty
  acknowledgement.
\<close>

theorem handleEdgePoints_failed_write_replies_twice:
  assumes "DecodeEdgePointsMsg lib msg = ((nodeID, parentID, points), None)"
    and "edgePoints db d nodeID parentID points = (Some err, d')"
    and "msgReply msg \<noteq> []"
  shows "handleEdgePoints db lib d msg =
     (d', [Publish (msgReply msg) (ErrorText err), Publish (msgReply msg) [],
           MetricAddSample ''metricCycleNodeEdgePoint''])"
  using assms by (simp add: handleEdgePoints_def reply_def)

text \<open>In the example, making \<open>G1\<close> a child of its own member \<open>D\<close> is refused as a
  cycle; the sender gets the error and then an acknowledgement.\<close>

theorem handleEdgePoints_failed_write_witness:
  "handleEdgePoints treeDb exLib exTree
       \<lparr>msgSubject = ''node.D.G1.points'', msgReply = ''inbox'', msgData = ''x''\<rparr>
     = (exTree, [Publish ''inbox'' ''cycle detected'', Publish ''inbox'' [],
                 MetricAddSample ''metricCycleNodeEdgePoint''])"
proof -
  let ?m = "\<lparr>msgSubject = ''node.D.G1.points'', msgReply = ''inbox'', msgData = ''x''\<rparr>"
  have dec: "DecodeEdgePointsMsg exLib ?m = ((''G1'', ''D'', [exNumber ''tombstone'' 0]), None)"
    by code_simp
  have wr: "edgePoints treeDb exTree ''G1'' ''D'' [exNumber ''tombstone'' 0]
              = (Some ErrCycle, exTree)"
    by code_simp
  have "msgReply ?m \<noteq> []" by simp
  from handleEdgePoints_failed_write_replies_twice [OF dec wr this]
  show ?thesis by (simp add: ErrCycle_def)
qed

section \<open>Properties of the authentication handler\<close>

text \<open>
  Claim C9. For every request on \<open>auth.user\<close> whose payload is empty, or does not
  decode, or has no email point, or has no password point, or whose credentials match
  no user node (the lookup fails or finds nothing), the handler publishes one reply and
  its payload is empty: no error text, no user node, no token.
\<close>

theorem handleAuthUser_failure_replies_nothing:
  assumes "msgData msg = []
         \<or> snd (PbDecodePoints lib (msgData msg)) \<noteq> None
         \<or> \<not> snd (PointsFind lib (fst (PbDecodePoints lib (msgData msg))) PointTypeEmail [])
         \<or> \<not> snd (PointsFind lib (fst (PbDecodePoints lib (msgData msg))) PointTypePass [])
         \<or> snd (userCheck db d
                  (pText (fst (PointsFind lib (fst (PbDecodePoints lib (msgData msg))) PointTypeEmail [])))
                  (pText (fst (PointsFind lib (fst (PbDecodePoints lib (msgData msg))) PointTypePass []))))
              \<noteq> None
         \<or> fst (userCheck db d
                  (pText (fst (PointsFind lib (fst (PbDecodePoints lib (msgData msg))) PointTypeEmail [])))
                  (pText (fst (PointsFind lib (fst (PbDecodePoints lib (msgData msg))) PointTypePass []))))
              = []"
  shows "handleAuthUser db lib d msg = [Publish (msgReply msg) []]"
  using assms
  by (auto simp: handleAuthUser_def returnNothing_def split: prod.splits option.splits bool.splits list.splits)

theorem handleAuthUser_failure_replies_nothing_witness:
  "handleAuthUser treeDb exLib exTree (exAuth []) = [Publish ''inbox'' []]
   \<and> handleAuthUser treeDb exLib exTree (exAuth ''bad'') = [Publish ''inbox'' []]
   \<and> handleAuthUser treeDb exLib exTree (exAuth ''noemail'') = [Publish ''inbox'' []]
   \<and> handleAuthUser treeDb exLib exTree (exAuth ''nopass'') = [Publish ''inbox'' []]
   \<and> handleAuthUser treeDb exLib exTree (exAuth ''b@x'') = [Publish ''inbox'' []]"
proof -
  have r: "msgReply (exAuth p) = ''inbox''" for p by (simp add: exAuth_def)
  have "handleAuthUser treeDb exLib exTree (exAuth []) = [Publish (msgReply (exAuth [])) []]"
    by (rule handleAuthUser_failure_replies_nothing) code_simp
  moreover
  have "handleAuthUser treeDb exLib exTree (exAuth ''bad'') = [Publish (msgReply (exAuth ''bad'')) []]"
    by (rule handleAuthUser_failure_replies_nothing) code_simp
  moreover
  have "handleAuthUser treeDb exLib exTree (exAuth ''noemail'')
          = [Publish (msgReply (exAuth ''noemail'')) []]"
    by (rule handleAuthUser_failure_replies_nothing) code_simp
  moreover
  have "handleAuthUser treeDb exLib exTree (exAuth ''nopass'')
          = [Publish (msgReply (exAuth ''nopass'')) []]"
    by (rule handleAuthUser_failure_replies_nothing) code_simp
  moreover
  have "handleAuthUser treeDb exLib exTree (exAuth ''b@x'') = [Publish (msgReply (exAuth ''b@x'')) []]"
    by (rule handleAuthUser_failure_replies_nothing) code_simp
  ultimately show ?thesis by (simp only: r) 
qed

section \<open>Properties of the notification fan-out\<close>

text \<open>The loop characterised: the notifiable nodes are numbered in the order collected,
  the \<open>i\<close>-th draws the \<open>i\<close>-th identifier, and its message is published unless it
  fails to serialise. Nodes that are not notifiable leave no trace.\<close>

lemma notifyUsers_enumerate:
  "notifyUsers lib uuidNew nodeID nt k userNodes =
     map (\<lambda>(i, u). Publish (userSubject lib u)
                     (fst (MessageToPb lib (messageFor lib nodeID nt (uuidNew i) u))))
       (filter (\<lambda>(i, u). snd (MessageToPb lib (messageFor lib nodeID nt (uuidNew i) u)) = None)
          (enumerate k (filter (notifiable lib) userNodes)))"
proof (induction userNodes arbitrary: k)
  case Nil
  then show ?case by simp
next
  case (Cons u us)
  obtain user err where user: "NodeToUser lib (ToNode u) = (user, err)"
    by (cases "NodeToUser lib (ToNode u)")
  show ?case
  proof (cases "notifiable lib u")
    case False
    then have "err \<noteq> None \<or> \<not> (uEmail user \<noteq> [] \<or> uPhone user \<noteq> [])"
      by (auto simp: notifiable_def hasContact_def userOf_def user)
    then show ?thesis
      using False Cons.IH [of k] by (cases err) (auto simp: user)
  next
    case True
    then have ok: "err = None" "uEmail user \<noteq> [] \<or> uPhone user \<noteq> []"
      by (auto simp: notifiable_def hasContact_def userOf_def user)
    have m: "messageFor lib nodeID nt (uuidNew k) u = newMessage (uuidNew k) user u nodeID nt"
      by (simp add: messageFor_def userOf_def user)
    obtain bytes perr where
      pb: "MessageToPb lib (newMessage (uuidNew k) user u nodeID nt) = (bytes, perr)"
      by (cases "MessageToPb lib (newMessage (uuidNew k) user u nodeID nt)")
    show ?thesis
      using True ok Cons.IH [of "Suc k"]
      by (cases perr) (auto simp: user m pb userSubject_def userOf_def)
  qed
qed

lemma notifyUsers_single:
  "length (notifyUsers lib uuidNew nodeID nt k [u]) \<le> 1
   \<and> (\<forall>e \<in> set (notifyUsers lib uuidNew nodeID nt k [u]).
         \<exists>bytes. e = Publish (userSubject lib u) bytes)"
  by (auto simp: userSubject_def userOf_def split: prod.splits option.splits)

text \<open>
  Claim C3 asks that the collected users are deduplicated by node ID, so that every user
  gets at most one message per notification. The source does not deduplicate them. In
  the example the device \<open>D\<close> is a member of the groups \<open>G1\<close> and \<open>G2\<close>, both
  below the root \<open>R\<close>; the administrator \<open>A\<close> has one parent edge, to \<open>R\<close>. A
  notification on \<open>D\<close> walks up through both groups, reaches \<open>R\<close> twice and collects
  \<open>A\<close> twice: two messages are published on \<open>node.A.msg\<close>, both with the parent
  \<open>R\<close>. (The user \<open>U1\<close>, a member of both groups, gets two messages as well.)
\<close>

theorem handleNotification_no_deduplication:
  "handleNotification 5 treeDb exLib exUuid exTree (exNot ''D'')
     = Some [Publish ''node.U1.msg'' ''uuid-|G1|hot'',
             Publish ''node.A.msg'' ''uuid-i|R|hot'',
             Publish ''node.U1.msg'' ''uuid-ii|G2|hot'',
             Publish ''node.A.msg'' ''uuid-iii|R|hot'']
   \<and> map eUp (edgeUp treeDb exTree ''A'' True) = [''R'']"
  by code_simp

text \<open>
  Claim C7. When the node a notification is published on is a user node, only that user
  is targeted: the handler returns with any depth bound, publishes at most one message,
  on the subject of that user, and the result does not depend on what
  \<open>nodeDescendents\<close> and \<open>edgeUp\<close> would answer, that is, neither the downward
  collection nor the upward walk takes place.
\<close>

theorem handleNotification_user_node_only:
  assumes "\<not> length (Split (msgSubject msg)) < 2"
    and "PbDecodeNotification lib (msgData msg) = (nt, None)"
    and "node db d (Split (msgSubject msg) ! 1) = (n, None)"
    and "nType n = NodeTypeUser"
  shows "\<exists>evs. handleNotification fuel db lib uuidNew d msg = Some evs
           \<and> length evs \<le> 1
           \<and> (\<forall>e \<in> set evs.
                 \<exists>bytes. e = Publish (''node.'' @ uID (fst (NodeToUser lib n)) @ ''.msg'') bytes)
           \<and> handleNotification fuel' (db\<lparr>nodeDescendents := nd, edgeUp := eu\<rparr>) lib uuidNew d msg
               = Some evs"
proof -
  let ?u = "ToNodeEdge n \<lparr>eID = [], eUp = ntParent nt, eDown = [], ePoints = []\<rparr>"
  let ?evs = "notifyUsers lib uuidNew (Split (msgSubject msg) ! 1) nt 0 [?u]"
  have same: "ToNode ?u = n" by (simp add: ToNode_def ToNodeEdge_def)
  have subj: "userSubject lib ?u = ''node.'' @ uID (fst (NodeToUser lib n)) @ ''.msg''"
    by (simp add: userSubject_def userOf_def same)
  have run: "handleNotification f db' lib uuidNew d msg = Some ?evs"
    if "node db' d (Split (msgSubject msg) ! 1) = (n, None)" for f and db' :: "'a Db"
    using assms(1,2,4) that by (simp add: handleNotification_def collectUsers_def Let_def)
  have "handleNotification fuel db lib uuidNew d msg = Some ?evs"
    using assms(3) by (rule run)
  moreover
  have "handleNotification fuel' (db\<lparr>nodeDescendents := nd, edgeUp := eu\<rparr>) lib uuidNew d msg
          = Some ?evs"
    using assms(3) by (intro run) simp
  moreover
  have "length ?evs \<le> 1"
    and "\<forall>e \<in> set ?evs. \<exists>bytes. e = Publish (userSubject lib ?u) bytes"
    using notifyUsers_single [of lib uuidNew "Split (msgSubject msg) ! 1" nt 0 ?u] by blast+
  ultimately show ?thesis unfolding subj by blast
qed

theorem handleNotification_user_node_only_witness:
  "nType (fst (node treeDb exTree ''U1'')) = NodeTypeUser
   \<and> handleNotification 0 treeDb exLib exUuid exTree (exNot ''U1'')
       = Some [Publish ''node.U1.msg'' ''uuid-|G1|hot'']
   \<and> handleNotification 0
        (treeDb\<lparr>nodeDescendents := (\<lambda>t i ty r del. ([], Some (GoError ''unused''))), edgeUp := (\<lambda>t i del. [])\<rparr>)
        exLib exUuid exTree (exNot ''U1'')
       = Some [Publish ''node.U1.msg'' ''uuid-|G1|hot'']"
proof -
  let ?nt = "\<lparr>ntID = ''n1'', ntParent = ''G1'', ntSubject = ''alarm'', ntMessage = ''hot''\<rparr>"
  let ?n = "exNode ''U1'' ''user'' [exText ''phone'' ''555'']"
  have h1: "\<not> length (Split (msgSubject (exNot ''U1''))) < 2" by code_simp
  have h2: "PbDecodeNotification exLib (msgData (exNot ''U1'')) = (?nt, None)" by code_simp
  have h3: "node treeDb exTree (Split (msgSubject (exNot ''U1'')) ! 1) = (?n, None)" by code_simp
  have h4: "nType ?n = NodeTypeUser" by code_simp
  have ev: "handleNotification 0 treeDb exLib exUuid exTree (exNot ''U1'')
              = Some [Publish ''node.U1.msg'' ''uuid-|G1|hot'']" by code_simp
  have ty: "nType (fst (node treeDb exTree ''U1'')) = NodeTypeUser" by code_simp
  from handleNotification_user_node_only [OF h1 h2 h3 h4, where fuel = 0 and uuidNew = exUuid
         and fuel' = 0 and nd = "\<lambda>t i ty r del. ([], Some (GoError ''unused''))" and eu = "\<lambda>t i del. []"]
  show ?thesis using ev ty by auto
qed

text \<open>
  Claim C10. In the fan-out, a collected user node whose email and phone are both empty
  is skipped without a trace: no message is built for it, no identifier is drawn and
  nothing is published. The collected nodes that convert to a user with at least one
  contact field are numbered in the order collected; the \<open>i\<close>-th of them gets a
  message that carries the \<open>i\<close>-th freshly drawn identifier, published on
  \<open>node.<userID>.msg\<close> (unless the message fails to serialise, which is logged).
\<close>

theorem handleNotification_skips_users_without_contact:
  assumes "\<not> length (Split (msgSubject msg)) < 2"
    and "PbDecodeNotification lib (msgData msg) = (nt, None)"
    and "node db d (Split (msgSubject msg) ! 1) = (n, None)"
    and "collectUsers fuel db d (Split (msgSubject msg) ! 1) nt n = Some userNodes"
  shows "handleNotification fuel db lib uuidNew d msg =
     Some (map (\<lambda>(i, u). Publish (userSubject lib u)
                  (fst (MessageToPb lib
                          (messageFor lib (Split (msgSubject msg) ! 1) nt (uuidNew i) u))))
             (filter (\<lambda>(i, u). snd (MessageToPb lib
                          (messageFor lib (Split (msgSubject msg) ! 1) nt (uuidNew i) u)) = None)
                (enumerate 0 (filter (notifiable lib) userNodes))))"
  using assms notifyUsers_enumerate [of lib uuidNew "Split (msgSubject msg) ! 1" nt 0 userNodes]
  by (simp add: handleNotification_def Let_def)

text \<open>In the example a notification on the group \<open>G1\<close> collects \<open>U1\<close>, \<open>U2\<close> and
  the administrator: \<open>U2\<close>, who has no contact data, gets nothing, and the two
  messages carry the first two identifiers.\<close>

theorem handleNotification_skips_users_without_contact_witness:
  "collectUsers 5 treeDb exTree ''G1''
       \<lparr>ntID = ''n1'', ntParent = ''G1'', ntSubject = ''alarm'', ntMessage = ''hot''\<rparr>
       (exNode ''G1'' ''group'' [])
     = Some [ToNodeEdge (exNode ''U1'' ''user'' [exText ''phone'' ''555'']) (exEdge ''U1'' ''G1'' []),
             ToNodeEdge (exNode ''U2'' ''user'' []) (exEdge ''U2'' ''G1'' []),
             ToNodeEdge (exNode ''A'' ''user'' [exText ''email'' ''a@x'', exText ''pass'' ''pw''])
               (exEdge ''A'' ''R'' [])]
   \<and> handleNotification 5 treeDb exLib exUuid exTree (exNot ''G1'')
     = Some [Publish ''node.U1.msg'' ''uuid-|G1|hot'', Publish ''node.A.msg'' ''uuid-i|R|hot'']"
proof -
  let ?nt = "\<lparr>ntID = ''n1'', ntParent = ''G1'', ntSubject = ''alarm'', ntMessage = ''hot''\<rparr>"
  let ?us = "[ToNodeEdge (exNode ''U1'' ''user'' [exText ''phone'' ''555'']) (exEdge ''U1'' ''G1'' []),
             ToNodeEdge (exNode ''U2'' ''user'' []) (exEdge ''U2'' ''G1'' []),
             ToNodeEdge (exNode ''A'' ''user'' [exText ''email'' ''a@x'', exText ''pass'' ''pw''])
               (exEdge ''A'' ''R'' [])]"
  have h1: "\<not> length (Split (msgSubject (exNot ''G1''))) < 2" by code_simp
  have h2: "PbDecodeNotification exLib (msgData (exNot ''G1'')) = (?nt, None)" by code_simp
  have h3: "node treeDb exTree (Split (msgSubject (exNot ''G1'')) ! 1)
              = (exNode ''G1'' ''group'' [], None)" by code_simp
  have h4: "collectUsers 5 treeDb exTree (Split (msgSubject (exNot ''G1'')) ! 1) ?nt
              (exNode ''G1'' ''group'' []) = Some ?us" by code_simp
  have ident: "Split (msgSubject (exNot ''G1'')) ! 1 = ''G1''" by code_simp
  have "handleNotification 5 treeDb exLib exUuid exTree (exNot ''G1'') =
     Some (map (\<lambda>(i, u). Publish (userSubject exLib u)
                  (fst (MessageToPb exLib
                          (messageFor exLib (Split (msgSubject (exNot ''G1'')) ! 1) ?nt
                             (exUuid i) u))))
             (filter (\<lambda>(i, u). snd (MessageToPb exLib
                          (messageFor exLib (Split (msgSubject (exNot ''G1'')) ! 1) ?nt
                             (exUuid i) u)) = None)
                (enumerate 0 (filter (notifiable exLib) ?us))))"
    by (rule handleNotification_skips_users_without_contact [OF h1 h2 h3 h4])
  also have "\<dots> = Some [Publish ''node.U1.msg'' ''uuid-|G1|hot'',
                        Publish ''node.A.msg'' ''uuid-i|R|hot'']"
    by code_simp
  finally show ?thesis using h4 ident by simp
qed

section \<open>Properties of the message delivery\<close>

text \<open>Once the counter is positive, the closure follows every living parent edge, as
  the deeper walk of the specification does; the counter stays positive.\<close>

lemma forEachUp_deeper:
  assumes ih: "\<And>ident svc level. 0 < level \<Longrightarrow>
      (case svcWalkDeeper fuel db d ident of
         None \<Rightarrow> findSvcNodes fuel db d message ident (svc, level) = None
       | Some xs \<Rightarrow>
           \<exists>l'. 0 < l' \<and> findSvcNodes fuel db d message ident (svc, level) = Some (svc @ xs, l'))"
    and "0 < level"
  shows "case collectUp (svcWalkDeeper fuel db d) (map eUp es) of
           None \<Rightarrow> forEachUp (findSvcNodes fuel db d message) es (svc, level) = None
         | Some ys \<Rightarrow> \<exists>l'. 0 < l' \<and>
             forEachUp (findSvcNodes fuel db d message) es (svc, level) = Some (svc @ ys, l')"
  using assms(2)
proof (induction es arbitrary: svc level)
  case Nil
  then show ?case by simp
next
  case (Cons e es)
  show ?case
  proof (cases "svcWalkDeeper fuel db d (eUp e)")
    case None
    then show ?thesis using ih [OF Cons.prems, of "eUp e" svc] by simp
  next
    case (Some xs)
    then obtain l' where l': "0 < l'"
      and step: "findSvcNodes fuel db d message (eUp e) (svc, level) = Some (svc @ xs, l')"
      using ih [OF Cons.prems, of "eUp e" svc] by auto
    show ?thesis
      using Cons.IH [OF l', of "svc @ xs"] Some step
      by (auto split: option.splits)
  qed
qed

lemma findSvcNodes_deeper:
  "0 < level \<Longrightarrow>
     (case svcWalkDeeper fuel db d ident of
        None \<Rightarrow> findSvcNodes fuel db d message ident (svc, level) = None
      | Some xs \<Rightarrow>
          \<exists>l'. 0 < l' \<and> findSvcNodes fuel db d message ident (svc, level) = Some (svc @ xs, l'))"
proof (induction fuel arbitrary: ident svc level)
  case 0
  then show ?case by simp
next
  case (Suc fuel)
  show ?case
  proof (cases "nodeDescendents db d ident NodeTypeMsgService False False")
    case (Pair nodes err)
    show ?thesis
    proof (cases err)
      case (Some e)
      then show ?thesis using Pair Suc.prems by auto
    next
      case None
      have "0 < level + 1" by simp
      from forEachUp_deeper [where es = "edgeUp db d ident False" and svc = "svc @ nodes",
             OF Suc.IH this]
      show ?thesis using Pair None Suc.prems by (auto split: option.splits)
    qed
  qed
qed

text \<open>
  Claim C8. For every message on \<open>node.<id>.msg\<close>, the service nodes \<open>handleMessage\<close>
  collects are those of the walk in which, at the first (source) level, only the parent
  recorded in the message's \<open>ParentID\<close> is followed upward and, at every deeper
  level, all living (non-tombstoned) parent edges of the current node are followed; the
  handler then delivers through these services, duplicates removed. The two sides agree
  for every depth bound, also on whether the bound suffices.
\<close>

theorem handleMessage_walk:
  "handleMessage fuel db lib d natsMsg =
     (if length (Split (msgSubject natsMsg)) < 2 then Some []
      else
        (case PbDecodeMessage lib (msgData natsMsg) of
           (message, Some err) \<Rightarrow> Some []
         | (message, None) \<Rightarrow>
             (case svcWalkSource fuel db d message (Split (msgSubject natsMsg) ! 1) of
                None \<Rightarrow> None
              | Some svcNodes \<Rightarrow>
                  Some (sendToServices lib message (RemoveDuplicateNodesID lib svcNodes)))))"
proof -
  have walk: "(case svcWalkSource fuel db d message ident of
                 None \<Rightarrow> findSvcNodes fuel db d message ident ([], 0) = None
               | Some xs \<Rightarrow> \<exists>l'. findSvcNodes fuel db d message ident ([], 0) = Some (xs, l'))"
    for message ident
  proof (cases fuel)
    case 0
    then show ?thesis by (simp add: svcWalkSource_def)
  next
    case (Suc f)
    obtain nodes err where
      nd: "nodeDescendents db d ident NodeTypeMsgService False False = (nodes, err)"
      by (cases "nodeDescendents db d ident NodeTypeMsgService False False")
    show ?thesis
    proof (cases err)
      case (Some e)
      then show ?thesis using Suc nd by (simp add: svcWalkSource_def)
    next
      case None
      have "0 < (1::nat)" by simp
      from findSvcNodes_deeper [OF this, where fuel = f and db = db and d = d
          and ident = "mParentID message" and message = message and svc = nodes]
      show ?thesis using Suc nd None
        by (auto simp: svcWalkSource_def split: option.splits)
    qed
  qed
  show ?thesis
  proof (cases "length (Split (msgSubject natsMsg)) < 2")
    case True
    then show ?thesis by (simp add: handleMessage_def)
  next
    case False
    obtain message err where dec: "PbDecodeMessage lib (msgData natsMsg) = (message, err)"
      by (cases "PbDecodeMessage lib (msgData natsMsg)")
    show ?thesis
    proof (cases err)
      case (Some e)
      then show ?thesis using False dec by (simp add: handleMessage_def Let_def)
    next
      case None
      note decoded = None
      show ?thesis
      proof (cases "svcWalkSource fuel db d message (Split (msgSubject natsMsg) ! 1)")
        case None
        then have "findSvcNodes fuel db d message (Split (msgSubject natsMsg) ! 1) ([], 0) = None"
          using walk [of message "Split (msgSubject natsMsg) ! 1"] by simp
        then show ?thesis
          using False dec decoded None by (simp add: handleMessage_def Let_def)
      next
        case (Some xs)
        then obtain l' where
          "findSvcNodes fuel db d message (Split (msgSubject natsMsg) ! 1) ([], 0) = Some (xs, l')"
          using walk [of message "Split (msgSubject natsMsg) ! 1"] by auto
        then show ?thesis
          using False dec decoded Some by (simp add: handleMessage_def Let_def)
      qed
    qed
  qed
qed



text \<open>In the example \<open>U1\<close> is a member of \<open>G1\<close> and of \<open>G2\<close>, each with an SMS
  service of its own: a message that arrived through \<open>G1\<close> goes out through \<open>S\<close>
  only, one that arrived through \<open>G2\<close> through \<open>S2\<close> only.\<close>

theorem handleMessage_walk_witness:
  "handleMessage 5 treeDb exLib exTree (exMsg ''G1'')
     = Some [SendSMS \<lparr>sService = ''twilio'', sSID = ''S'', sAuthToken = [], sFrom = []\<rparr>
               ''555'' ''hot'']
   \<and> handleMessage 5 treeDb exLib exTree (exMsg ''G2'')
     = Some [SendSMS \<lparr>sService = ''twilio'', sSID = ''S2'', sAuthToken = [], sFrom = []\<rparr>
               ''555'' ''hot'']"
  unfolding handleMessage_walk by code_simp

section \<open>Properties of the reading handlers\<close>

text \<open>The reference database omits tombstoned edges from every enumeration that does
  not ask for them, one level deep or recursive.\<close>

lemma treeChildren_alive:
  "n \<in> set (treeChildren t ident False) \<Longrightarrow> \<not> tombstoned (neEdgePoints n)"
  by (auto simp: treeChildren_def ToNodeEdge_def)

lemma treeBfs_alive:
  "n \<in> set (treeBfs t False visited queue) \<Longrightarrow> \<not> tombstoned (neEdgePoints n)"
proof (induction t "False" visited queue rule: treeBfs.induct)
  case (1 t visited)
  then show ?case by simp
next
  case (2 t visited ident queue)
  then show ?case
    by (auto simp: treeChildren_alive split: if_splits)
qed

lemma treeDescendents_alive:
  "treeDescendents t ident typ recursive False = (nodes, err) \<Longrightarrow> n \<in> set nodes \<Longrightarrow>
     \<not> tombstoned (neEdgePoints n)"
  by (auto simp: treeDescendents_def treeChildren_alive treeBfs_alive split: if_splits)

text \<open>
  Claim C6. Default enumeration hides tombstoned entities. The reply of \<open>handleNode\<close>
  encodes the nodes \<open>nodesRet\<close>, and for a request whose payload is \<open>"all"\<close> none of
  them is tombstoned. The reply of \<open>handleNodeChildren\<close> encodes the descendants the
  database returns, and for a request whose \<open>includeDel\<close> parameter is false (or whose
  payload is empty) none of them is tombstoned; this half is about the database, which
  is the reference database of section 4.1 here.
\<close>

theorem default_enumeration_hides_tombstoned:
  "handleNode db lib d msg =
     [publishNodes lib (msgReply msg) errEncodingNode (fst (handleNodeResp db lib d msg))
        (snd (handleNodeResp db lib d msg)),
      MetricAddSample ''metricCycleNode'']
   \<and> (msgData msg = ''all'' \<longrightarrow>
        (\<forall>n \<in> set (snd (handleNodeResp db lib d msg)). \<not> NodeIsTombstone lib n))
   \<and> handleNodeChildren treeDb lib t msg' =
     [publishNodes lib (msgReply msg') errEncodingNodes
        (fst (handleNodeChildrenResp treeDb lib t msg'))
        (snd (handleNodeChildrenResp treeDb lib t msg')),
      MetricAddSample ''metricCycleNodeChildren'']
   \<and> ((msgData msg' \<noteq> [] \<longrightarrow> \<not> snd (fst (UnmarshalNatsRequest lib (msgData msg')))) \<longrightarrow>
        (\<forall>n \<in> set (snd (handleNodeChildrenResp treeDb lib t msg')).
           \<not> tombstoned (neEdgePoints n)))"
proof -
  have a: "handleNode db lib d msg =
     [publishNodes lib (msgReply msg) errEncodingNode (fst (handleNodeResp db lib d msg))
        (snd (handleNodeResp db lib d msg)),
      MetricAddSample ''metricCycleNode'']"
    by (simp add: handleNode_def split: prod.splits)
  have b: "\<forall>n \<in> set (snd (handleNodeResp db lib d msg)). \<not> NodeIsTombstone lib n"
    if "msgData msg = ''all''"
    using that by (auto simp: handleNodeResp_def Let_def split: prod.splits)
  have c: "handleNodeChildren treeDb lib t msg' =
     [publishNodes lib (msgReply msg') errEncodingNodes
        (fst (handleNodeChildrenResp treeDb lib t msg'))
        (snd (handleNodeChildrenResp treeDb lib t msg')),
      MetricAddSample ''metricCycleNodeChildren'']"
    by (simp add: handleNodeChildren_def split: prod.splits)
  have e: "\<forall>n \<in> set (snd (handleNodeChildrenResp treeDb lib t msg')).
             \<not> tombstoned (neEdgePoints n)"
    if "msgData msg' \<noteq> [] \<longrightarrow> \<not> snd (fst (UnmarshalNatsRequest lib (msgData msg')))"
    using that
    by (auto simp: handleNodeChildrenResp_def Let_def treeDb_def
             split: if_splits prod.splits option.splits dest: treeDescendents_alive)
  show ?thesis using a b c e by blast
qed

text \<open>In the example \<open>U2\<close> has a living instance in \<open>G1\<close> and a tombstoned one in
  \<open>G2\<close>: reading all instances returns the one in \<open>G1\<close>, and the children of \<open>G2\<close>
  are listed without \<open>U2\<close> and without the tombstoned device \<open>X\<close>.\<close>

theorem default_enumeration_hides_tombstoned_witness:
  "map neParent (snd (handleNodeResp treeDb exLib exTree (exRead ''node.U2'' ''all''))) = [''G1'']
   \<and> map neID (snd (handleNodeChildrenResp treeDb exLib exTree (exRead ''node.G2.children'' [])))
        = [''D'', ''U1'', ''S2'']
   \<and> list_all (\<lambda>n. \<not> NodeIsTombstone exLib n)
        (snd (handleNodeResp treeDb exLib exTree (exRead ''node.U2'' ''all'')))
   \<and> list_all (\<lambda>n. \<not> tombstoned (neEdgePoints n))
        (snd (handleNodeChildrenResp treeDb exLib exTree (exRead ''node.G2.children'' [])))"
proof -
  have h1: "msgData (exRead ''node.U2'' ''all'') = ''all''" by code_simp
  have h2: "msgData (exRead ''node.G2.children'' []) \<noteq> [] \<longrightarrow>
              \<not> snd (fst (UnmarshalNatsRequest exLib (msgData (exRead ''node.G2.children'' []))))"
    by code_simp
  have e1: "map neParent (snd (handleNodeResp treeDb exLib exTree (exRead ''node.U2'' ''all'')))
              = [''G1'']" by code_simp
  have e2: "map neID (snd (handleNodeChildrenResp treeDb exLib exTree
              (exRead ''node.G2.children'' []))) = [''D'', ''U1'', ''S2'']" by code_simp
  from default_enumeration_hides_tombstoned [of treeDb exLib exTree "exRead ''node.U2'' ''all''"
         exTree "exRead ''node.G2.children'' []"] h1 h2
  show ?thesis using e1 e2 by (simp add: list_all_iff)
qed

section \<open>Properties of the upstream propagation\<close>




end
